theory Spec2Isabelle
  imports Complex_Main "HOL-Library.AList"
begin

section \<open>Values of the store\<close>

text \<open>
  The store of \<^verbatim>\<open>store.ts\<close> is a JavaScript object used as a property bag: a field
  written under a name is a property of the store object itself, next to the methods
  the object inherits from its class and from \<^verbatim>\<open>Object.prototype\<close>. Its behaviour
  depends on three judgements of the language on a value (\<^verbatim>\<open>typeof\<close>, truthiness and
  strict equality with a string literal) and on property lookup along the prototype
  chain. The model keeps every kind of value the type \<^verbatim>\<open>StoreValue\<close> admits.

  The repository holds two versions of the file. The model follows \<^verbatim>\<open>src/store.ts\<close>.
  The other version keeps the table of \<^verbatim>\<open>Restrict\<close> in an object keyed by the class
  name instead of metadata of the class, registers a permission only when one is given,
  compares a permission with \<^verbatim>\<open>==\<close> instead of \<^verbatim>\<open>===\<close>, and has the bodies of
  \<^verbatim>\<open>readThisStore\<close> and \<^verbatim>\<open>readNestedStore\<close> inside \<^verbatim>\<open>read\<close>; \<^verbatim>\<open>write\<close> and its helpers
  are the same.

  A number is only ever tested for truthiness and handed back; \<^verbatim>\<open>NaN\<close> and zero are
  the falsy ones (an infinity behaves like any other non-zero number here).
\<close>

datatype number = NaN | Finite rat

text \<open>
  Modelled from the spec: the types \<^verbatim>\<open>JSONPrimitive\<close>, \<^verbatim>\<open>JSONArray\<close> and \<^verbatim>\<open>JSONObject\<close>,
  which \<^verbatim>\<open>store.ts\<close> imports from \<^verbatim>\<open>json-types\<close>, a file that is not among the sources. A
  primitive is a string, a number, a boolean or \<^verbatim>\<open>null\<close>; an array is a list of
  values; an object maps strings to values. \<open>Arr\<close> and \<open>Obj\<close> take every value of the
  model for an element, which is more than JSON has.

  The rest is the source's
  \<^verbatim>\<open>StoreValue = JSONObject | JSONArray | Store | JSONPrimitive | undefined | (() => StoreResult)\<close>.
  An object literal is the list of its entries in the order \<^verbatim>\<open>Object.entries\<close> yields
  them. A \<^verbatim>\<open>Store\<close> is the name of its class and its own enumerable properties in
  creation order; \<^verbatim>\<open>defaultPolicy\<close> is one of them, as in the source, where it is a
  class field. A string is a list of characters; an array has no holes.

  A function value may read and change state that lives outside the store (a closure's
  variables): it is a transformer of such an outside state \<open>'w\<close>. It takes no argument,
  does not use \<^verbatim>\<open>this\<close>, and returns; a function that throws, or that changes the
  store it is read from, is not represented.
\<close>

datatype 'w StoreValue =
    Undefined
  | Null
  | Bool bool
  | Num number
  | Str string
  | Arr "'w StoreValue list"
  | Obj "(string \<times> 'w StoreValue) list"
  | StoreV "'w Store"
  | Fn "'w \<Rightarrow> 'w StoreValue \<times> 'w"
and 'w Store = Store (schema: string) (props: "(string \<times> 'w StoreValue) list")

text \<open>\<^verbatim>\<open>typeof x\<close>. It is \<^verbatim>\<open>"object"\<close> for \<^verbatim>\<open>null\<close>, for an array and for a store.\<close>

datatype js_type = TUndefined | TObject | TBoolean | TNumber | TString | TFunction

fun typeof :: "'w StoreValue \<Rightarrow> js_type" where
  "typeof Undefined = TUndefined"
| "typeof Null = TObject"
| "typeof (Bool b) = TBoolean"
| "typeof (Num n) = TNumber"
| "typeof (Str s) = TString"
| "typeof (Arr xs) = TObject"
| "typeof (Obj es) = TObject"
| "typeof (StoreV s) = TObject"
| "typeof (Fn f) = TFunction"

text \<open>\<^verbatim>\<open>!x\<close> is true exactly for the falsy values.\<close>

fun falsy :: "'w StoreValue \<Rightarrow> bool" where
  "falsy Undefined = True"
| "falsy Null = True"
| "falsy (Bool b) = (\<not> b)"
| "falsy (Num NaN) = True"
| "falsy (Num (Finite q)) = (q = 0)"
| "falsy (Str s) = (s = [])"
| "falsy (Arr xs) = False"
| "falsy (Obj es) = False"
| "falsy (StoreV s) = False"
| "falsy (Fn f) = False"

text \<open>\<^verbatim>\<open>x === "lit"\<close> for a string literal.\<close>

fun strict_eq_str :: "'w StoreValue \<Rightarrow> string \<Rightarrow> bool" where
  "strict_eq_str (Str s) lit = (s = lit)"
| "strict_eq_str _ lit = False"


section \<open>Errors and outcomes\<close>

text \<open>
  The source throws three errors of its own, \<^verbatim>\<open>Error("empty path not allowed")\<close>,
  \<^verbatim>\<open>Error(`read operation not allowed for key ${key}`)\<close> and
  \<^verbatim>\<open>Error(`write operation not allowed for key: ${key}`)\<close>. Every other failure is a
  \<^verbatim>\<open>TypeError\<close> of the language: a property read from \<^verbatim>\<open>undefined\<close> or \<^verbatim>\<open>null\<close>, a
  call of something that is not a function, \<^verbatim>\<open>Object.entries(null)\<close>, a destructuring of
  something that is not iterable. The source has no error class of its own and no
  error for a missing node.

  A call returns, throws, or leaves what the model represents (\<open>Outside\<close>). The last
  happens at five places, each marked where it occurs: a field named \<^verbatim>\<open>computePath\<close>
  that holds a function whose result can be destructured into a key and a rest; a read
  that hands out a prototype object; a step from a prototype to its own prototype; a
  write that succeeds on a prototype; and a write that succeeds in a node which a
  function stored under the name \<^verbatim>\<open>getAttribute\<close> provided. Of such a call a theorem
  below says at most that it has this outcome.
\<close>

datatype error =
    EmptyPath
  | ReadNotAllowed string
  | WriteNotAllowed string
  | TypeError

datatype 'a result = Returns 'a | Throws error | Outside

fun fail_as :: "'a result \<Rightarrow> 'b result" where
  "fail_as (Throws e) = Throws e"
| "fail_as _ = Outside"

section \<open>Paths\<close>

text \<open>\<^verbatim>\<open>path.split(":")\<close>: never the empty list.\<close>

fun split_colon :: "string \<Rightarrow> string list" where
  "split_colon [] = [[]]"
| "split_colon (c # cs) =
     (if c = CHR '':'' then [] # split_colon cs
      else (case split_colon cs of
              [] \<Rightarrow> [[c]]
            | seg # segs \<Rightarrow> (c # seg) # segs))"

text \<open>\<^verbatim>\<open>keys.join(":")\<close>.\<close>

fun join_colon :: "string list \<Rightarrow> string" where
  "join_colon [] = []"
| "join_colon [seg] = seg"
| "join_colon (seg # seg' # segs) = seg @ CHR '':'' # join_colon (seg' # segs)"

text \<open>
  \<^verbatim>\<open>computePath\<close>: \<^verbatim>\<open>keys.shift()\<close> takes the first segment; \<^verbatim>\<open>!key\<close> holds for the
  empty string (and for the \<^verbatim>\<open>undefined\<close> of an empty array, which \<^verbatim>\<open>split\<close> never
  returns).
\<close>

definition computePath :: "string \<Rightarrow> error + (string \<times> string)" where
  "computePath path =
     (case split_colon path of
        [] \<Rightarrow> Inl EmptyPath
      | key # keys \<Rightarrow> if key = [] then Inl EmptyPath else Inr (key, join_colon keys))"

text \<open>A single segment: a non-empty name without the separator.\<close>

definition segment :: "string \<Rightarrow> bool" where
  "segment k \<longleftrightarrow> k \<noteq> [] \<and> CHR '':'' \<notin> set k"


section \<open>Properties, inherited members and method calls\<close>

text \<open>
  A store object inherits the members of \<^verbatim>\<open>Store.prototype\<close>, the methods of the class
  with its constructor, and those of \<^verbatim>\<open>Object.prototype\<close>. A class that extends
  \<^verbatim>\<open>Store\<close> is taken to add decorated fields only, no members of its own.
\<close>

definition store_methods :: "string list" where
  "store_methods =
     [''constructor'', ''allowedToRead'', ''allowedToWrite'', ''read'', ''write'',
      ''writeEntries'', ''entries'', ''getPermission'', ''readThisStore'', ''readNestedStore'',
      ''addToThisStore'', ''addToNestedStore'', ''computePath'', ''setAttribute'',
      ''getAttribute'']"

definition object_members :: "string list" where
  "object_members =
     [''constructor'', ''__defineGetter__'', ''__defineSetter__'', ''hasOwnProperty'',
      ''__lookupGetter__'', ''__lookupSetter__'', ''isPrototypeOf'', ''propertyIsEnumerable'',
      ''toString'', ''valueOf'', ''__proto__'', ''toLocaleString'']"

definition inherited :: "string \<Rightarrow> bool" where
  "inherited k \<longleftrightarrow> k \<in> set store_methods \<or> k \<in> set object_members"

text \<open>
  What a property lookup yields: a value of the store, or an inherited member, known by
  its name. Every inherited member is truthy and none equals a string: all are
  functions but \<^verbatim>\<open>__proto__\<close>, which yields the prototype object.
\<close>

datatype 'w jsval = Val "'w StoreValue" | Member string

fun falsy_j :: "'w jsval \<Rightarrow> bool" where
  "falsy_j (Val v) = falsy v"
| "falsy_j (Member n) = False"

fun eq_str :: "'w jsval \<Rightarrow> string \<Rightarrow> bool" where
  "eq_str (Val v) lit = strict_eq_str v lit"
| "eq_str (Member n) lit = False"

text \<open>
  \<^verbatim>\<open>this[key]\<close>: the own property when there is one, else the inherited member of that
  name, else \<^verbatim>\<open>undefined\<close>.
\<close>

definition property :: "'w Store \<Rightarrow> string \<Rightarrow> 'w jsval" where
  "property s key =
     (case map_of (props s) key of
        Some v \<Rightarrow> Val v
      | None \<Rightarrow> if inherited key then Member key else Val Undefined)"

text \<open>
  \<^verbatim>\<open>value()\<close> for an inherited function: a call without arguments and with \<^verbatim>\<open>this\<close>
  undefined. The methods of the store then read a property of \<^verbatim>\<open>undefined\<close>, the
  constructor of a class cannot be called without \<^verbatim>\<open>new\<close>, and the functions of
  \<^verbatim>\<open>Object.prototype\<close> convert \<^verbatim>\<open>this\<close> to an object first; each of these throws a
  \<^verbatim>\<open>TypeError\<close>. The two that return are \<^verbatim>\<open>isPrototypeOf\<close> (\<^verbatim>\<open>false\<close> for an argument that
  is not an object) and \<^verbatim>\<open>toString\<close>.
\<close>

definition call_member :: "string \<Rightarrow> 'w StoreValue result" where
  "call_member n =
     (if n = ''isPrototypeOf'' then Returns (Bool False)
      else if n = ''toString'' then Returns (Str ''[object Undefined]'')
      else Throws TypeError)"

text \<open>\<^verbatim>\<open>typeof value === "function" ? value() : value\<close>.\<close>

definition call_if_function :: "'w jsval \<Rightarrow> 'w \<Rightarrow> 'w jsval result \<times> 'w" where
  "call_if_function found w =
     (case found of
        Val (Fn f) \<Rightarrow> (case f w of (r, w') \<Rightarrow> (Returns (Val r), w'))
      | Val x \<Rightarrow> (Returns (Val x), w)
      | Member n \<Rightarrow>
          if n = ''__proto__'' then (Returns (Member n), w)
          else (case call_member n of
                  Returns r \<Rightarrow> (Returns (Val r), w)
                | other \<Rightarrow> (fail_as other, w)))"

text \<open>
  \<^verbatim>\<open>this.m(...)\<close> looks \<^verbatim>\<open>m\<close> up like any property, so a field written under the name
  of a method takes the method's place: the call runs the method when the store has no
  own property \<^verbatim>\<open>m\<close>, calls the stored function when the field holds one (its result
  takes the place of the method's, by \<open>on_thunk\<close>), and throws a \<^verbatim>\<open>TypeError\<close> when the
  field holds anything else.
\<close>

datatype 'w callee = Method | Thunk "'w \<Rightarrow> 'w StoreValue \<times> 'w" | NotCallable

definition dispatch :: "'w Store \<Rightarrow> string \<Rightarrow> 'w callee" where
  "dispatch s m =
     (case map_of (props s) m of
        None \<Rightarrow> Method
      | Some (Fn f) \<Rightarrow> Thunk f
      | Some _ \<Rightarrow> NotCallable)"

definition invoke ::
  "'w Store \<Rightarrow> string \<Rightarrow> ('w \<Rightarrow> 'a result \<times> 'w) \<Rightarrow> ('w StoreValue \<Rightarrow> 'a result) \<Rightarrow>
   'w \<Rightarrow> 'a result \<times> 'w" where
  "invoke s m body on_thunk w =
     (case dispatch s m of
        Method \<Rightarrow> body w
      | Thunk f \<Rightarrow> (case f w of (r, w') \<Rightarrow> (on_thunk r, w'))
      | NotCallable \<Rightarrow> (Throws TypeError, w))"

lemma invoke_cong [fundef_cong]:
  "s = s' \<Longrightarrow> m = m' \<Longrightarrow> w = w' \<Longrightarrow> (dispatch s' m' = Method \<Longrightarrow> body w' = body' w') \<Longrightarrow>
   h = h' \<Longrightarrow> invoke s m body h w = invoke s' m' body' h' w'"
  by (simp add: invoke_def split: callee.splits)

section \<open>Permissions\<close>

text \<open>
  \<^verbatim>\<open>Restrict(permission?)\<close> records \<^verbatim>\<open>permissions[propertyKey] = permission\<close> in a plain
  object kept as metadata of the class; without an argument the entry is \<^verbatim>\<open>undefined\<close>.
  The registry gives, for the name of a class and the name of a field, the decoration
  of that field, if any.
\<close>

datatype Permission = PermR | PermW | PermRW | PermNone

fun permission_string :: "Permission \<Rightarrow> string" where
  "permission_string PermR = ''r''"
| "permission_string PermW = ''w''"
| "permission_string PermRW = ''rw''"
| "permission_string PermNone = ''none''"

datatype decoration = Restrict "Permission option"

type_synonym registry = "string \<Rightarrow> string \<Rightarrow> decoration option"

text \<open>
  \<^verbatim>\<open>permissions[key]\<close>, where \<^verbatim>\<open>permissions\<close> is the object of the class, or \<^verbatim>\<open>{}\<close> for a
  class without decorations. Both are plain objects: a key without an entry yields the
  member of \<^verbatim>\<open>Object.prototype\<close> of that name when there is one. An assignment to
  \<^verbatim>\<open>permissions["__proto__"]\<close> of a string or of \<^verbatim>\<open>undefined\<close> sets nothing, so that key
  always yields the prototype.
\<close>

definition permissions_entry :: "registry \<Rightarrow> string \<Rightarrow> string \<Rightarrow> 'w jsval" where
  "permissions_entry reg cls key =
     (if key = ''__proto__'' then Member key
      else (case reg cls key of
              Some (Restrict (Some p)) \<Rightarrow> Val (Str (permission_string p))
            | Some (Restrict None) \<Rightarrow> Val Undefined
            | None \<Rightarrow> if key \<in> set object_members then Member key else Val Undefined))"

text \<open>\<^verbatim>\<open>permissions[key] || this.defaultPolicy\<close>.\<close>

definition getPermission :: "registry \<Rightarrow> 'w Store \<Rightarrow> string \<Rightarrow> 'w jsval" where
  "getPermission reg s key =
     (let entry = permissions_entry reg (schema s) key
      in if falsy_j entry then property s ''defaultPolicy'' else entry)"

definition call_getPermission ::
  "registry \<Rightarrow> 'w Store \<Rightarrow> string \<Rightarrow> 'w \<Rightarrow> 'w jsval result \<times> 'w" where
  "call_getPermission reg s key =
     invoke s ''getPermission'' (\<lambda>w. (Returns (getPermission reg s key), w)) (\<lambda>r. Returns (Val r))"

text \<open>
  \<^verbatim>\<open>allowedToRead\<close> and \<^verbatim>\<open>allowedToWrite\<close> call \<^verbatim>\<open>this.getPermission(key)\<close> and compare
  the result with \<^verbatim>\<open>===\<close>. The definitions headed \<open>call_\<close> are the calls through
  \<^verbatim>\<open>this\<close>, which a field of the same name intercepts.
\<close>

definition allowedToRead ::
  "registry \<Rightarrow> 'w Store \<Rightarrow> string \<Rightarrow> 'w \<Rightarrow> 'w jsval result \<times> 'w" where
  "allowedToRead reg s key w =
     (case call_getPermission reg s key w of
        (Returns permission, w') \<Rightarrow>
          (Returns (Val (Bool (eq_str permission ''r'' \<or> eq_str permission ''rw''))), w')
      | (other, w') \<Rightarrow> (fail_as other, w'))"

definition allowedToWrite ::
  "registry \<Rightarrow> 'w Store \<Rightarrow> string \<Rightarrow> 'w \<Rightarrow> 'w jsval result \<times> 'w" where
  "allowedToWrite reg s key w =
     (case call_getPermission reg s key w of
        (Returns permission, w') \<Rightarrow>
          (Returns (Val (Bool (eq_str permission ''w'' \<or> eq_str permission ''rw''))), w')
      | (other, w') \<Rightarrow> (fail_as other, w'))"

definition call_allowedToRead ::
  "registry \<Rightarrow> 'w Store \<Rightarrow> string \<Rightarrow> 'w \<Rightarrow> 'w jsval result \<times> 'w" where
  "call_allowedToRead reg s key =
     invoke s ''allowedToRead'' (allowedToRead reg s key) (\<lambda>r. Returns (Val r))"

definition call_allowedToWrite ::
  "registry \<Rightarrow> 'w Store \<Rightarrow> string \<Rightarrow> 'w \<Rightarrow> 'w jsval result \<times> 'w" where
  "call_allowedToWrite reg s key =
     invoke s ''allowedToWrite'' (allowedToWrite reg s key) (\<lambda>r. Returns (Val r))"

section \<open>Attributes\<close>

text \<open>
  \<^verbatim>\<open>getAttribute\<close> returns \<^verbatim>\<open>this[key]\<close>. \<^verbatim>\<open>setAttribute\<close> defines an own enumerable,
  writable property: a new name comes last in creation order, an existing one keeps
  its place. \<^verbatim>\<open>new Store()\<close> has the one field \<^verbatim>\<open>defaultPolicy = "rw"\<close>.
\<close>

definition getAttribute :: "'w Store \<Rightarrow> string \<Rightarrow> 'w jsval" where
  "getAttribute s key = property s key"

definition call_getAttribute :: "'w Store \<Rightarrow> string \<Rightarrow> 'w \<Rightarrow> 'w jsval result \<times> 'w" where
  "call_getAttribute s key =
     invoke s ''getAttribute'' (\<lambda>w. (Returns (getAttribute s key), w)) (\<lambda>r. Returns (Val r))"

definition setAttribute :: "'w Store \<Rightarrow> string \<Rightarrow> 'w StoreValue \<Rightarrow> 'w Store" where
  "setAttribute s key v = Store (schema s) (AList.update key v (props s))"

definition call_setAttribute ::
  "'w Store \<Rightarrow> string \<Rightarrow> 'w StoreValue \<Rightarrow> 'w \<Rightarrow> 'w Store result \<times> 'w" where
  "call_setAttribute s key v =
     invoke s ''setAttribute'' (\<lambda>w. (Returns (setAttribute s key v), w)) (\<lambda>r. Returns s)"

definition new_Store :: "'w Store" where
  "new_Store = Store ''Store'' [(''defaultPolicy'', Str ''rw'')]"

text \<open>
  \<^verbatim>\<open>const [key, subPath] = this.computePath(path)\<close> followed by \<^verbatim>\<open>subPath.length\<close>, for
  the result of a function stored under the name \<^verbatim>\<open>computePath\<close>. A result that is not
  iterable cannot be destructured; a string of fewer than two characters leaves
  \<^verbatim>\<open>subPath\<close> undefined. A longer string or an array yields a key and a rest that have
  nothing to do with the path: such a call is not followed further.
\<close>

definition destructure :: "'w StoreValue \<Rightarrow> (string \<times> string) result" where
  "destructure r =
     (case r of
        Str cs \<Rightarrow> if length cs < 2 then Throws TypeError else Outside
      | Arr xs \<Rightarrow> Outside
      | _ \<Rightarrow> Throws TypeError)"

definition call_computePath ::
  "'w Store \<Rightarrow> string \<Rightarrow> 'w \<Rightarrow> (string \<times> string) result \<times> 'w" where
  "call_computePath s path =
     invoke s ''computePath''
       (\<lambda>w. (case computePath path of Inl e \<Rightarrow> Throws e | Inr parts \<Rightarrow> Returns parts, w))
       destructure"

section \<open>Enumerating an object\<close>

text \<open>The decimal name of an array index, and the number a decimal name denotes.\<close>

definition digit_chars :: string where
  "digit_chars = ''0123456789''"

fun string_of_nat :: "nat \<Rightarrow> string" where
  "string_of_nat n =
     (if n < 10 then [digit_chars ! n]
      else string_of_nat (n div 10) @ [digit_chars ! (n mod 10)])"

declare string_of_nat.simps [simp del]

definition nat_of_string :: "string \<Rightarrow> nat" where
  "nat_of_string k = foldl (\<lambda>a c. 10 * a + (of_char c - 48)) 0 k"

text \<open>
  The language enumerates the own properties of an object with the array indices
  first (canonical decimal names below \<open>2^32 - 1\<close>), in ascending order, and the other
  names after them in creation order.
\<close>

definition is_array_index :: "string \<Rightarrow> bool" where
  "is_array_index k \<longleftrightarrow>
     k \<noteq> [] \<and> list_all (\<lambda>c. c \<in> set digit_chars) k \<and>
     (hd k = CHR ''0'' \<longrightarrow> k = ''0'') \<and> nat_of_string k < 4294967295"

definition own_entries :: "(string \<times> 'v) list \<Rightarrow> (string \<times> 'v) list" where
  "own_entries ps =
     sort_key (\<lambda>p. nat_of_string (fst p)) (filter (\<lambda>p. is_array_index (fst p)) ps)
     @ filter (\<lambda>p. \<not> is_array_index (fst p)) ps"

definition index_keys :: "nat \<Rightarrow> string list" where
  "index_keys n = map string_of_nat [0..<n]"

text \<open>
  \<^verbatim>\<open>Object.entries(value)\<close>. The source calls it on every value whose \<^verbatim>\<open>typeof\<close> is
  \<^verbatim>\<open>"object"\<close>: an object literal, an array (its elements under their indices), a store
  (its own properties, \<^verbatim>\<open>defaultPolicy\<close> among them) and \<^verbatim>\<open>null\<close>, on which it throws.
\<close>

fun object_entries :: "'w StoreValue \<Rightarrow> error + (string \<times> 'w StoreValue) list" where
  "object_entries Undefined = Inl TypeError"
| "object_entries Null = Inl TypeError"
| "object_entries (Bool b) = Inr []"
| "object_entries (Num n) = Inr []"
| "object_entries (Str cs) = Inr (zip (index_keys (length cs)) (map (\<lambda>c. Str [c]) cs))"
| "object_entries (Arr xs) = Inr (zip (index_keys (length xs)) xs)"
| "object_entries (Obj es) = Inr es"
| "object_entries (StoreV s) = Inr (own_entries (props s))"
| "object_entries (Fn f) = Inr []"


text \<open>The size of a list of entries, for the termination of a write.\<close>

definition entries_size :: "(string \<times> 'w StoreValue) list \<Rightarrow> nat" where
  "entries_size es = sum_list (map (\<lambda>e. Suc (size (snd e))) es)"

section \<open>Writing\<close>

text \<open>
  \<^verbatim>\<open>write\<close>, \<^verbatim>\<open>addToThisStore\<close>, \<^verbatim>\<open>addToNestedStore\<close> and the loop
  \<^verbatim>\<open>for (const [key, val] of Object.entries(...)) store.write(key, val)\<close>, which is the
  body of \<^verbatim>\<open>writeEntries\<close> and of the branch of \<^verbatim>\<open>addToThisStore\<close> for objects. The
  source changes the store in place; here a call takes the store and the outside state
  and returns the store as the call leaves it, with the outside state. Every call
  through \<^verbatim>\<open>this\<close> or through a child goes by \<open>invoke\<close>, in the order of the source.

  \<open>addToThisStore\<close>: the permission check, then \<^verbatim>\<open>typeof value === "object"\<close> sends
  object literals, arrays, stores and \<^verbatim>\<open>null\<close> to \<^verbatim>\<open>Object.entries\<close>, whose entries are
  written into a fresh store one by one.

  \<open>addToNestedStore\<close>: \<^verbatim>\<open>!this.getAttribute(key)\<close> is a test of truthiness. On the falsy
  side the key is checked, the rest of the path written into a fresh store and that
  store set at the key. On the truthy side \<^verbatim>\<open>this.getAttribute(key)\<close> is called a second
  time and \<^verbatim>\<open>write\<close> is called on what it returns, whatever that is: a child store
  (changed in place, so the parent holds the changed child); an object literal with a
  function under \<^verbatim>\<open>write\<close>; the prototype, when the key is \<^verbatim>\<open>__proto__\<close>, which is the
  store of the same class without own properties; or something without a \<^verbatim>\<open>write\<close>, a
  \<^verbatim>\<open>TypeError\<close>.
\<close>

function write_store ::
    "registry \<Rightarrow> 'w Store \<Rightarrow> string \<Rightarrow> 'w StoreValue \<Rightarrow> 'w \<Rightarrow> 'w Store result \<times> 'w"
  and addToThisStore ::
    "registry \<Rightarrow> 'w Store \<Rightarrow> string \<Rightarrow> 'w StoreValue \<Rightarrow> 'w \<Rightarrow> 'w Store result \<times> 'w"
  and addToNestedStore ::
    "registry \<Rightarrow> 'w Store \<Rightarrow> string \<Rightarrow> string \<Rightarrow> 'w StoreValue \<Rightarrow> 'w \<Rightarrow> 'w Store result \<times> 'w"
  and writeEntries ::
    "registry \<Rightarrow> 'w Store \<Rightarrow> (string \<times> 'w StoreValue) list \<Rightarrow> 'w \<Rightarrow> 'w Store result \<times> 'w"
where
  "write_store reg s path v w =
     (case call_computePath s path w of
        (Returns (key, subPath), w1) \<Rightarrow>
          if subPath = []
          then invoke s ''addToThisStore'' (addToThisStore reg s key v) (\<lambda>r. Returns s) w1
          else invoke s ''addToNestedStore'' (addToNestedStore reg s key subPath v)
                 (\<lambda>r. Returns s) w1
      | (other, w1) \<Rightarrow> (fail_as other, w1))"
| "addToThisStore reg s key v w =
     (case call_allowedToWrite reg s key w of
        (Returns allowed, w1) \<Rightarrow>
          if falsy_j allowed then (Throws (WriteNotAllowed key), w1)
          else if typeof v = TObject then
            (case object_entries v of
               Inl e \<Rightarrow> (Throws e, w1)
             | Inr es \<Rightarrow>
                 (case writeEntries reg new_Store es w1 of
                    (Returns subStore, w2) \<Rightarrow> call_setAttribute s key (StoreV subStore) w2
                  | (other, w2) \<Rightarrow> (fail_as other, w2)))
          else call_setAttribute s key v w1
      | (other, w1) \<Rightarrow> (fail_as other, w1))"
| "addToNestedStore reg s key subPath v w =
     (case call_getAttribute s key w of
        (Returns found, w1) \<Rightarrow>
          if falsy_j found then
            (case call_allowedToWrite reg s key w1 of
               (Returns allowed, w2) \<Rightarrow>
                 if falsy_j allowed then (Throws (WriteNotAllowed key), w2)
                 else (case write_store reg new_Store subPath v w2 of
                         (Returns subStore, w3) \<Rightarrow> call_setAttribute s key (StoreV subStore) w3
                       | (other, w3) \<Rightarrow> (fail_as other, w3))
             | (other, w2) \<Rightarrow> (fail_as other, w2))
          else
            (case call_getAttribute s key w1 of
               (Returns (Val (StoreV subStore)), w2) \<Rightarrow>
                 (case invoke subStore ''write'' (write_store reg subStore subPath v)
                         (\<lambda>r. Returns subStore) w2 of
                    (Returns subStore', w3) \<Rightarrow>
                      (if dispatch s ''getAttribute'' = Method
                       then Returns (setAttribute s key (StoreV subStore'))
                       else Outside, w3)
                  | (other, w3) \<Rightarrow> (fail_as other, w3))
             | (Returns (Val (Obj es)), w2) \<Rightarrow>
                 (case map_of es ''write'' of
                    Some (Fn f) \<Rightarrow> (case f w2 of (r, w3) \<Rightarrow> (Returns s, w3))
                  | _ \<Rightarrow> (Throws TypeError, w2))
             | (Returns (Val _), w2) \<Rightarrow> (Throws TypeError, w2)
             | (Returns (Member n), w2) \<Rightarrow>
                 if n \<noteq> ''__proto__'' then (Throws TypeError, w2)
                 else if props s = [] then (Outside, w2)
                 else (case write_store reg (Store (schema s) []) subPath v w2 of
                         (Returns changed, w3) \<Rightarrow> (Outside, w3)
                       | (other, w3) \<Rightarrow> (fail_as other, w3))
             | (other, w2) \<Rightarrow> (fail_as other, w2))
      | (other, w1) \<Rightarrow> (fail_as other, w1))"
| "writeEntries reg s [] w = (Returns s, w)"
| "writeEntries reg s ((key, val) # es) w =
     (case invoke s ''write'' (write_store reg s key val) (\<lambda>r. Returns s) w of
        (Returns s', w1) \<Rightarrow> writeEntries reg s' es w1
      | (other, w1) \<Rightarrow> (fail_as other, w1))"
  by pat_completeness auto

text \<open>\<^verbatim>\<open>store.write(path, value)\<close>, as a caller of the store writes it.\<close>

definition call_write ::
  "registry \<Rightarrow> 'w Store \<Rightarrow> string \<Rightarrow> 'w StoreValue \<Rightarrow> 'w \<Rightarrow> 'w Store result \<times> 'w" where
  "call_write reg s path v = invoke s ''write'' (write_store reg s path v) (\<lambda>r. Returns s)"

section \<open>Reading\<close>

text \<open>
  \<open>readThisStore\<close>: the permission check, then \<^verbatim>\<open>this.getAttribute(key)\<close>, called when it
  is a function. \<open>readNestedStore\<close>: \<^verbatim>\<open>this[key]\<close> without a permission check, called
  when it is a function, and \<^verbatim>\<open>read\<close> called on the outcome, whatever it is.
\<close>

definition readThisStore ::
  "registry \<Rightarrow> 'w Store \<Rightarrow> string \<Rightarrow> 'w \<Rightarrow> 'w StoreValue result \<times> 'w" where
  "readThisStore reg s key w =
     (case call_allowedToRead reg s key w of
        (Returns allowed, w1) \<Rightarrow>
          if falsy_j allowed then (Throws (ReadNotAllowed key), w1)
          else (case call_getAttribute s key w1 of
                  (Returns found, w2) \<Rightarrow>
                    (case call_if_function found w2 of
                       (Returns (Val res), w3) \<Rightarrow> (Returns res, w3)
                     | (Returns (Member n), w3) \<Rightarrow> (Outside, w3)
                     | (other, w3) \<Rightarrow> (fail_as other, w3))
                | (other, w2) \<Rightarrow> (fail_as other, w2))
      | (other, w1) \<Rightarrow> (fail_as other, w1))"

function read ::
    "registry \<Rightarrow> 'w Store \<Rightarrow> string \<Rightarrow> 'w \<Rightarrow> 'w StoreValue result \<times> 'w"
  and readNestedStore ::
    "registry \<Rightarrow> 'w Store \<Rightarrow> string \<Rightarrow> string \<Rightarrow> 'w \<Rightarrow> 'w StoreValue result \<times> 'w"
where
  "read reg s path w =
     (case call_computePath s path w of
        (Returns (key, subPath), w1) \<Rightarrow>
          if subPath = []
          then invoke s ''readThisStore'' (readThisStore reg s key) Returns w1
          else invoke s ''readNestedStore'' (readNestedStore reg s subPath key) Returns w1
      | (other, w1) \<Rightarrow> (fail_as other, w1))"
| "readNestedStore reg s subPath key w =
     (case call_if_function (property s key) w of
        (Returns (Val (StoreV subStore)), w1) \<Rightarrow>
          invoke subStore ''read'' (read reg subStore subPath) Returns w1
      | (Returns (Val (Obj es)), w1) \<Rightarrow>
          (case map_of es ''read'' of
             Some (Fn f) \<Rightarrow> (case f w1 of (r, w2) \<Rightarrow> (Returns r, w2))
           | _ \<Rightarrow> (Throws TypeError, w1))
      | (Returns (Val _), w1) \<Rightarrow> (Throws TypeError, w1)
      | (Returns (Member n), w1) \<Rightarrow>
          if n \<noteq> ''__proto__'' then (Throws TypeError, w1)
          else if props s = [] then (Outside, w1)
          else read reg (Store (schema s) []) subPath w1
      | (other, w1) \<Rightarrow> (fail_as other, w1))"
  by pat_completeness auto

text \<open>\<^verbatim>\<open>store.read(path)\<close>, as a caller of the store writes it.\<close>

definition call_read ::
  "registry \<Rightarrow> 'w Store \<Rightarrow> string \<Rightarrow> 'w \<Rightarrow> 'w StoreValue result \<times> 'w" where
  "call_read reg s path = invoke s ''read'' (read reg s path) Returns"

section \<open>Stores that keep their methods\<close>

text \<open>
  A store is plain when none of its fields has the name of an inherited member: every
  call through \<^verbatim>\<open>this\<close> then reaches the method of the class.
\<close>

definition plain :: "'w Store \<Rightarrow> bool" where
  "plain s \<longleftrightarrow> list_all (\<lambda>p. \<not> inherited (fst p)) (props s)"

text \<open>
  The permission that \<open>getPermission\<close> resolves for a key includes the read, or the
  write, capability.
\<close>

definition readable :: "registry \<Rightarrow> 'w Store \<Rightarrow> string \<Rightarrow> bool" where
  "readable reg s key \<longleftrightarrow>
     eq_str (getPermission reg s key) ''r'' \<or> eq_str (getPermission reg s key) ''rw''"

definition writable :: "registry \<Rightarrow> 'w Store \<Rightarrow> string \<Rightarrow> bool" where
  "writable reg s key \<longleftrightarrow>
     eq_str (getPermission reg s key) ''w'' \<or> eq_str (getPermission reg s key) ''rw''"

text \<open>
  The path \<open>k\<^sub>1:...:k\<^sub>n\<close> leads from a store through child stores, each held as a
  field of the one before, and all of them plain.
\<close>

fun nodes_along :: "'w Store \<Rightarrow> string list \<Rightarrow> bool" where
  "nodes_along s [] = plain s"
| "nodes_along s (k # ks) =
     (plain s \<and> segment k \<and>
      (case map_of (props s) k of
         Some (StoreV c) \<Rightarrow> nodes_along c ks
       | _ \<Rightarrow> False))"

section \<open>Termination\<close>

lemma entries_size_Nil [simp]: "entries_size [] = 0"
  by (simp add: entries_size_def)

lemma entries_size_Cons [simp]: "entries_size ((k, v) # es) = Suc (size v) + entries_size es"
  by (simp add: entries_size_def)

lemma entries_size_append [simp]: "entries_size (es @ fs) = entries_size es + entries_size fs"
  by (simp add: entries_size_def)

lemma entries_size_le: "entries_size es \<le> size_list (size_prod (\<lambda>x. 0) size) es"
  by (induction es) auto

lemma entries_size_insort:
  "entries_size (insort_key f e es) = entries_size [e] + entries_size es"
  by (induction es) (auto simp: entries_size_def)

lemma entries_size_sort: "entries_size (sort_key f es) = entries_size es"
  by (induction es) (auto simp: entries_size_insort)

lemma entries_size_filter:
  "entries_size (filter P es) + entries_size (filter (\<lambda>e. \<not> P e) es) = entries_size es"
  by (induction es) auto

lemma entries_size_own: "entries_size (own_entries ps) = entries_size ps"
  by (simp add: own_entries_def entries_size_sort entries_size_filter)

lemma entries_size_zip: "entries_size (zip ks xs) \<le> size_list size xs"
proof (induction xs arbitrary: ks)
  case Nil
  then show ?case by simp
next
  case (Cons x xs)
  show ?case
  proof (cases ks)
    case Nil
    then show ?thesis by simp
  next
    case (Cons k ks')
    then show ?thesis using Cons.IH [of ks'] by simp
  qed
qed

lemma object_entries_size:
  "typeof v = TObject \<Longrightarrow> object_entries v = Inr es \<Longrightarrow> entries_size es < size v"
proof (cases v)
  case (Arr xs)
  assume "object_entries v = Inr es"
  with Arr show ?thesis using entries_size_zip [of "index_keys (length xs)" xs] by auto
next
  case (Obj fs)
  assume "object_entries v = Inr es"
  with Obj show ?thesis using entries_size_le [of fs] by auto
next
  case (StoreV s)
  assume "object_entries v = Inr es"
  with StoreV show ?thesis using entries_size_le [of "props s"]
    by (cases s) (auto simp: entries_size_own)
qed auto

lemma split_colon_nonempty [simp]: "split_colon p \<noteq> []"
  by (induction p) (auto split: list.splits)

lemma join_colon_Cons: "join_colon ((c # seg) # segs) = c # join_colon (seg # segs)"
  by (cases segs) auto

lemma join_split_colon [simp]: "join_colon (split_colon p) = p"
proof (induction p)
  case Nil
  then show ?case by simp
next
  case (Cons c p)
  obtain seg segs where s: "split_colon p = seg # segs"
    by (cases "split_colon p") auto
  with Cons show ?case by (auto simp: join_colon_Cons)
qed

lemma split_colon_segment:
  "CHR '':'' \<notin> set k \<Longrightarrow> split_colon (k @ CHR '':'' # rest) = k # split_colon rest"
  by (induction k) auto

lemma split_colon_single: "CHR '':'' \<notin> set k \<Longrightarrow> split_colon k = [k]"
  by (induction k) auto

lemma computePath_single: "segment k \<Longrightarrow> computePath k = Inr (k, [])"
  by (simp add: computePath_def segment_def split_colon_single)

lemma computePath_nested:
  "segment k \<Longrightarrow> computePath (k @ CHR '':'' # rest) = Inr (k, rest)"
  by (simp add: computePath_def segment_def split_colon_segment)

lemma computePath_Nil: "computePath [] = Inl EmptyPath"
  by (simp add: computePath_def)

lemma computePath_shorter:
  assumes "computePath path = Inr (key, subPath)"
  shows "length subPath < length path"
proof -
  obtain segs where s: "split_colon path = key # segs" and k: "key \<noteq> []"
    and sub: "subPath = join_colon segs"
    using assms by (auto simp: computePath_def split: list.splits if_splits)
  show ?thesis
  proof (cases segs)
    case Nil
    with s have "path = key" using join_split_colon [of path] by simp
    with Nil sub k show ?thesis by simp
  next
    case (Cons seg segs')
    with s have "path = key @ CHR '':'' # join_colon segs" using join_split_colon [of path] by simp
    with sub show ?thesis by simp
  qed
qed


lemma call_computePath_shorter:
  assumes "call_computePath s path w = (Returns (key, subPath), w1)"
  shows "length subPath < length path"
proof -
  from assms have "computePath path = Inr (key, subPath)"
    by (auto simp: call_computePath_def invoke_def destructure_def
        split: callee.splits sum.splits prod.splits StoreValue.splits if_splits)
  then show ?thesis by (rule computePath_shorter)
qed

termination write_store
  apply (relation "inv_image (less_than <*lex*> less_than <*lex*> less_than)
     (\<lambda>x. case x of
        Inl (Inl (reg, s, path, v, w)) \<Rightarrow> (size v, length path, 0::nat)
      | Inl (Inr (reg, s, key, v, w)) \<Rightarrow> (size v, 0, 0)
      | Inr (Inl (reg, s, key, subPath, v, w)) \<Rightarrow> (size v, length subPath, 1)
      | Inr (Inr (reg, s, es, w)) \<Rightarrow> (entries_size es, 0, 0))")
  apply (simp_all add: object_entries_size)
  apply (auto dest: call_computePath_shorter [OF sym])
  done

termination read
  apply (relation "inv_image (less_than <*lex*> less_than)
     (\<lambda>x. case x of
        Inl (reg, s, path, w) \<Rightarrow> (length path, 0::nat)
      | Inr (reg, s, subPath, key, w) \<Rightarrow> (length subPath, 1))")
  apply (auto dest: call_computePath_shorter [OF sym])
  done

declare write_store.simps [simp del] addToThisStore.simps [simp del]
  addToNestedStore.simps [simp del] read.simps [simp del] readNestedStore.simps [simp del]


section \<open>One step of a read and of a write\<close>

lemma plain_own: "plain s \<Longrightarrow> inherited m \<Longrightarrow> map_of (props s) m = None"
  by (auto simp: plain_def list_all_iff map_of_eq_None_iff)

lemma plain_dispatch: "plain s \<Longrightarrow> inherited m \<Longrightarrow> dispatch s m = Method"
  by (simp add: dispatch_def plain_own)

lemma plain_invoke: "plain s \<Longrightarrow> inherited m \<Longrightarrow> invoke s m body h w = body w"
  by (simp add: invoke_def plain_dispatch)

lemma inherited_methods [simp]:
  "inherited ''getPermission''" "inherited ''allowedToRead''" "inherited ''allowedToWrite''"
  "inherited ''getAttribute''" "inherited ''setAttribute''" "inherited ''computePath''"
  "inherited ''read''" "inherited ''write''" "inherited ''readThisStore''"
  "inherited ''readNestedStore''" "inherited ''addToThisStore''" "inherited ''addToNestedStore''"
  by (simp_all add: inherited_def store_methods_def)

lemma plain_getPermission:
  "plain s \<Longrightarrow> call_getPermission reg s key w = (Returns (getPermission reg s key), w)"
  by (simp add: call_getPermission_def plain_invoke)

lemma plain_allowedToRead:
  "plain s \<Longrightarrow> call_allowedToRead reg s key w = (Returns (Val (Bool (readable reg s key))), w)"
  by (simp add: call_allowedToRead_def plain_invoke allowedToRead_def plain_getPermission
      readable_def)

lemma plain_allowedToWrite:
  "plain s \<Longrightarrow> call_allowedToWrite reg s key w = (Returns (Val (Bool (writable reg s key))), w)"
  by (simp add: call_allowedToWrite_def plain_invoke allowedToWrite_def plain_getPermission
      writable_def)

lemma plain_getAttribute:
  "plain s \<Longrightarrow> call_getAttribute s key w = (Returns (property s key), w)"
  by (simp add: call_getAttribute_def plain_invoke getAttribute_def)

lemma plain_setAttribute:
  "plain s \<Longrightarrow> call_setAttribute s key v w = (Returns (setAttribute s key v), w)"
  by (simp add: call_setAttribute_def plain_invoke)

lemma plain_computePath:
  "plain s \<Longrightarrow> call_computePath s path w =
     (case computePath path of Inl e \<Rightarrow> Throws e | Inr parts \<Rightarrow> Returns parts, w)"
  by (simp add: call_computePath_def plain_invoke)

lemma plain_call_read: "plain s \<Longrightarrow> call_read reg s path w = read reg s path w"
  by (simp add: call_read_def plain_invoke)

lemma plain_call_write: "plain s \<Longrightarrow> call_write reg s path v w = write_store reg s path v w"
  by (simp add: call_write_def plain_invoke)

lemma plain_new_Store [simp]: "plain new_Store"
  by (simp add: plain_def new_Store_def inherited_def store_methods_def object_members_def)

lemma plain_setAttribute_iff:
  "plain (setAttribute s k v) \<longleftrightarrow> plain s \<and> \<not> inherited k"
proof -
  have keys: "plain t \<longleftrightarrow> (\<forall>a \<in> fst ` set (props t). \<not> inherited a)" for t :: "'a Store"
    by (auto simp: plain_def list_all_iff)
  show ?thesis
    unfolding keys by (auto simp: setAttribute_def dom_update)
qed

lemma read_single:
  "plain s \<Longrightarrow> segment k \<Longrightarrow> call_read reg s k w = readThisStore reg s k w"
  by (simp add: plain_call_read read.simps plain_computePath computePath_single plain_invoke)

lemma read_nested:
  "plain s \<Longrightarrow> segment k \<Longrightarrow> rest \<noteq> [] \<Longrightarrow>
   call_read reg s (k @ CHR '':'' # rest) w = readNestedStore reg s rest k w"
  by (simp add: plain_call_read read.simps plain_computePath computePath_nested plain_invoke)

lemma write_single:
  "plain s \<Longrightarrow> segment k \<Longrightarrow> call_write reg s k v w = addToThisStore reg s k v w"
  by (simp add: plain_call_write write_store.simps plain_computePath computePath_single
      plain_invoke)

lemma write_nested:
  "plain s \<Longrightarrow> segment k \<Longrightarrow> rest \<noteq> [] \<Longrightarrow>
   call_write reg s (k @ CHR '':'' # rest) v w = addToNestedStore reg s k rest v w"
  by (simp add: plain_call_write write_store.simps plain_computePath computePath_nested
      plain_invoke)


lemmas run =
  invoke_def dispatch_def call_getPermission_def call_allowedToRead_def call_allowedToWrite_def
  call_getAttribute_def call_setAttribute_def call_computePath_def call_read_def call_write_def
  allowedToRead_def allowedToWrite_def getPermission_def permissions_entry_def property_def
  getAttribute_def setAttribute_def new_Store_def computePath_def read.simps
  readNestedStore.simps readThisStore_def write_store.simps addToThisStore.simps
  addToNestedStore.simps call_if_function_def call_member_def destructure_def inherited_def
  store_methods_def object_members_def

section \<open>Permissions and attributes on ordinary names\<close>

text \<open>
  For a name that no prototype provides, the permission is the entry of the registry
  when it carries a permission and the store's \<^verbatim>\<open>defaultPolicy\<close> otherwise, and a lookup
  sees the own property or \<^verbatim>\<open>undefined\<close>.
\<close>

lemma permission_string_nonempty [simp]: "permission_string p \<noteq> []"
  by (cases p) auto

lemma permission_string_capability:
  "(permission_string p = ''r'' \<or> permission_string p = ''rw'') = (p = PermR \<or> p = PermRW)"
  "(permission_string p = ''w'' \<or> permission_string p = ''rw'') = (p = PermW \<or> p = PermRW)"
  by (cases p; simp)+

lemma getPermission_ordinary:
  "\<not> inherited key \<Longrightarrow>
   getPermission reg s key =
     (case reg (schema s) key of
        Some (Restrict (Some p)) \<Rightarrow> Val (Str (permission_string p))
      | _ \<Rightarrow> property s ''defaultPolicy'')"
  by (cases "reg (schema s) key"; (cases "the (reg (schema s) key)")?;
      (cases "case the (reg (schema s) key) of Restrict x \<Rightarrow> x")?)
     (auto simp: getPermission_def permissions_entry_def inherited_def object_members_def
        split: option.splits decoration.splits)

lemma property_own: "map_of (props s) key = Some x \<Longrightarrow> property s key = Val x"
  by (simp add: property_def)

lemma property_absent:
  "map_of (props s) key = None \<Longrightarrow> \<not> inherited key \<Longrightarrow> property s key = Val Undefined"
  by (simp add: property_def)

lemma property_setAttribute:
  "property (setAttribute s k v) k' = (if k' = k then Val v else property s k')"
  by (simp add: property_def setAttribute_def update_conv')

lemma schema_setAttribute: "schema (setAttribute s k v) = schema s"
  by (simp add: setAttribute_def)

lemma own_setAttribute:
  "map_of (props (setAttribute s k v)) k' = (if k' = k then Some v else map_of (props s) k')"
  by (simp add: setAttribute_def update_conv')

lemma readable_ordinary:
  "\<not> inherited key \<Longrightarrow>
   readable reg s key \<longleftrightarrow>
     (case reg (schema s) key of
        Some (Restrict (Some p)) \<Rightarrow> p = PermR \<or> p = PermRW
      | _ \<Rightarrow> property s ''defaultPolicy'' \<in> {Val (Str ''r''), Val (Str ''rw'')})"
proof -
  have str: "eq_str x lit \<longleftrightarrow> x = Val (Str lit)" for x :: "'a jsval" and lit
    by (cases x; cases "case x of Val v \<Rightarrow> v") auto
  assume "\<not> inherited key"
  then show ?thesis
    by (cases "reg (schema s) key"; (cases "the (reg (schema s) key)")?;
        (cases "case the (reg (schema s) key) of Restrict x \<Rightarrow> x")?;
        (cases "the (case the (reg (schema s) key) of Restrict x \<Rightarrow> x)")?)
       (auto simp: readable_def getPermission_ordinary str)
qed

lemma writable_ordinary:
  "\<not> inherited key \<Longrightarrow>
   writable reg s key \<longleftrightarrow>
     (case reg (schema s) key of
        Some (Restrict (Some p)) \<Rightarrow> p = PermW \<or> p = PermRW
      | _ \<Rightarrow> property s ''defaultPolicy'' \<in> {Val (Str ''w''), Val (Str ''rw'')})"
proof -
  have str: "eq_str x lit \<longleftrightarrow> x = Val (Str lit)" for x :: "'a jsval" and lit
    by (cases x; cases "case x of Val v \<Rightarrow> v") auto
  assume "\<not> inherited key"
  then show ?thesis
    by (cases "reg (schema s) key"; (cases "the (reg (schema s) key)")?;
        (cases "case the (reg (schema s) key) of Restrict x \<Rightarrow> x")?;
        (cases "the (case the (reg (schema s) key) of Restrict x \<Rightarrow> x)")?)
       (auto simp: writable_def getPermission_ordinary str)
qed

lemma addToThisStore_plain:
  assumes "plain s" and "writable reg s k" and "typeof v \<noteq> TObject"
  shows "addToThisStore reg s k v w = (Returns (setAttribute s k v), w)"
  using assms by (simp add: addToThisStore.simps plain_allowedToWrite plain_setAttribute)

lemma readThisStore_plain:
  assumes "plain s" and "readable reg s k" and "map_of (props s) k = Some x"
    and "typeof x \<noteq> TFunction"
  shows "readThisStore reg s k w = (Returns x, w)"
  using assms
  by (cases x)
     (simp_all add: readThisStore_def plain_allowedToRead plain_getAttribute property_own
        call_if_function_def)

section \<open>C1: a nested write through an existing child\<close>




section \<open>C2: permission resolution\<close>

text \<open>
  C2 at the field name \<^verbatim>\<open>toString\<close>. The class \<^verbatim>\<open>Vault\<close> registers \<^verbatim>\<open>secret\<close> as \<^verbatim>\<open>none\<close>
  and nothing else; the instance has \<^verbatim>\<open>defaultPolicy = "rw"\<close>. The claim makes
  \<^verbatim>\<open>toString\<close>, which has no entry, fall back to \<^verbatim>\<open>rw\<close>. In the source
  \<^verbatim>\<open>permissions["toString"]\<close> is the function that the plain object \<^verbatim>\<open>permissions\<close>
  inherits: it is truthy, so there is no fallback, and it equals neither \<^verbatim>\<open>"r"\<close> nor
  \<^verbatim>\<open>"rw"\<close>. Both capabilities are denied and \<^verbatim>\<open>read("toString")\<close> and
  \<^verbatim>\<open>write("toString", 1)\<close> throw the permission error. In the other direction, once a
  function returning \<^verbatim>\<open>true\<close> is written under the name \<^verbatim>\<open>allowedToWrite\<close>, which is
  permitted, \<^verbatim>\<open>write("secret", 1)\<close> succeeds although \<^verbatim>\<open>secret\<close> is registered \<^verbatim>\<open>none\<close>.
\<close>

theorem inherited_name_is_denied:
  "(\<lambda>c k. if c = ''Vault'' \<and> k = ''secret'' then Some (Restrict (Some PermNone)) else None)
      ''Vault'' ''toString'' = None
   \<and> property (Store ''Vault'' [(''defaultPolicy'', Str ''rw'')] :: unit Store) ''defaultPolicy''
       = Val (Str ''rw'')
   \<and> call_allowedToRead
        (\<lambda>c k. if c = ''Vault'' \<and> k = ''secret'' then Some (Restrict (Some PermNone)) else None)
        (Store ''Vault'' [(''defaultPolicy'', Str ''rw'')] :: unit Store) ''toString'' ()
       = (Returns (Val (Bool False)), ())
   \<and> call_allowedToWrite
        (\<lambda>c k. if c = ''Vault'' \<and> k = ''secret'' then Some (Restrict (Some PermNone)) else None)
        (Store ''Vault'' [(''defaultPolicy'', Str ''rw'')] :: unit Store) ''toString'' ()
       = (Returns (Val (Bool False)), ())
   \<and> call_read
        (\<lambda>c k. if c = ''Vault'' \<and> k = ''secret'' then Some (Restrict (Some PermNone)) else None)
        (Store ''Vault'' [(''defaultPolicy'', Str ''rw'')] :: unit Store) ''toString'' ()
       = (Throws (ReadNotAllowed ''toString''), ())
   \<and> call_write
        (\<lambda>c k. if c = ''Vault'' \<and> k = ''secret'' then Some (Restrict (Some PermNone)) else None)
        (Store ''Vault'' [(''defaultPolicy'', Str ''rw'')] :: unit Store) ''toString''
        (Num (Finite 1)) ()
       = (Throws (WriteNotAllowed ''toString''), ())
   \<and> call_write
        (\<lambda>c k. if c = ''Vault'' \<and> k = ''secret'' then Some (Restrict (Some PermNone)) else None)
        (Store ''Vault'' [(''defaultPolicy'', Str ''rw'')] :: unit Store) ''allowedToWrite''
        (Fn (\<lambda>w. (Bool True, w))) ()
       = (Returns (Store ''Vault'' [(''defaultPolicy'', Str ''rw''),
            (''allowedToWrite'', Fn (\<lambda>w. (Bool True, w)))]), ())
   \<and> call_write
        (\<lambda>c k. if c = ''Vault'' \<and> k = ''secret'' then Some (Restrict (Some PermNone)) else None)
        (Store ''Vault'' [(''defaultPolicy'', Str ''rw''),
            (''allowedToWrite'', Fn (\<lambda>w. (Bool True, w)))] :: unit Store) ''secret''
        (Num (Finite 1)) ()
       = (Returns (Store ''Vault'' [(''defaultPolicy'', Str ''rw''),
            (''allowedToWrite'', Fn (\<lambda>w. (Bool True, w))), (''secret'', Num (Finite 1))]), ())"
  by (simp add: run)

section \<open>C3: arrays\<close>









section \<open>C4: reading through a missing node\<close>

text \<open>
  Where the store is plain and \<open>k\<close> is not the name of an inherited member, a nested
  read through a key without a field throws the \<^verbatim>\<open>TypeError\<close> of the language, from
  \<^verbatim>\<open>subStore.read\<close> on \<^verbatim>\<open>undefined\<close>, and leaves the outside state as it was.
\<close>

lemma read_missing_intermediate_plain:
  assumes "plain s" and "segment k" and "rest \<noteq> []" and "\<not> inherited k"
    and "map_of (props s) k = None"
  shows "call_read reg s (k @ CHR '':'' # rest) w = (Throws TypeError, w)"
  using assms
  by (simp add: read_nested readNestedStore.simps property_absent call_if_function_def)

text \<open>
  C4 at the key \<^verbatim>\<open>__proto__\<close>. The instance of \<^verbatim>\<open>Vault\<close>, a class with
  \<^verbatim>\<open>@Restrict("r") secret\<close>, has no field \<^verbatim>\<open>__proto__\<close>, so the claim makes
  \<^verbatim>\<open>read("__proto__:secret")\<close> fail for the missing node. In the source
  \<^verbatim>\<open>this["__proto__"]\<close> is the prototype of the instance, \<^verbatim>\<open>read\<close> is called on it, the
  registry permits \<^verbatim>\<open>secret\<close> and the prototype has no such property: the read returns
  \<^verbatim>\<open>undefined\<close>. On an instance of \<^verbatim>\<open>Store\<close> itself the same read throws the permission
  error for \<^verbatim>\<open>secret\<close>, from inside the prototype. For an ordinary key the read does
  fail, with the \<^verbatim>\<open>TypeError\<close> of the language; a read through a field that holds
  the number \<^verbatim>\<open>5\<close> fails with the same error.
\<close>

theorem prototype_read_returns_undefined:
  "map_of (props (Store ''Vault'' [(''defaultPolicy'', Str ''rw'')] :: unit Store)) ''__proto__''
     = None
   \<and> call_read
        (\<lambda>c k. if c = ''Vault'' \<and> k = ''secret'' then Some (Restrict (Some PermR)) else None)
        (Store ''Vault'' [(''defaultPolicy'', Str ''rw'')] :: unit Store) ''__proto__:secret'' ()
       = (Returns Undefined, ())
   \<and> call_read (\<lambda>c k. None) (new_Store :: unit Store) ''__proto__:secret'' ()
       = (Throws (ReadNotAllowed ''secret''), ())
   \<and> call_read (\<lambda>c k. None) (new_Store :: unit Store) ''a:b'' () = (Throws TypeError, ())
   \<and> call_read (\<lambda>c k. None)
        (Store ''Store'' [(''defaultPolicy'', Str ''rw''), (''a'', Num (Finite 5))] :: unit Store)
        ''a:b'' () = (Throws TypeError, ())"
  by (simp add: run)

section \<open>C5: the round trip of a leaf\<close>

text \<open>
  C5, as stated, fails. \<^verbatim>\<open>defaultPolicy\<close> is a single segment, the fresh store resolves
  its permission to \<^verbatim>\<open>rw\<close>, and \<^verbatim>\<open>"none"\<close> is a string: the write
  \<^verbatim>\<open>write("defaultPolicy", "none")\<close> returns, and the read that follows throws the
  permission error, because the write changed the policy the read falls back to.
\<close>

theorem defaultPolicy_round_trip_fails:
  "readable (\<lambda>c k. None) (new_Store :: unit Store) ''defaultPolicy''
   \<and> writable (\<lambda>c k. None) (new_Store :: unit Store) ''defaultPolicy''
   \<and> call_write (\<lambda>c k. None) (new_Store :: unit Store) ''defaultPolicy'' (Str ''none'') ()
       = (Returns (Store ''Store'' [(''defaultPolicy'', Str ''none'')]), ())
   \<and> call_read (\<lambda>c k. None) (Store ''Store'' [(''defaultPolicy'', Str ''none'')] :: unit Store)
        ''defaultPolicy'' () = (Throws (ReadNotAllowed ''defaultPolicy''), ())"
  by (simp add: run readable_def writable_def)

text \<open>
  C5, as the code has it. Let the store have no field under the name of an inherited
  member, let \<open>p\<close> be a single segment that is not such a name and whose resolved
  permission includes read and write, and let the write leave that permission as it
  is: \<open>p\<close> is not \<^verbatim>\<open>defaultPolicy\<close>, or it has an entry with a permission of its own. For
  every value \<open>v\<close> that the code stores and hands back as it is (\<^verbatim>\<open>typeof v\<close> is neither
  \<^verbatim>\<open>"object"\<close> nor \<^verbatim>\<open>"function"\<close>: a boolean, a number, a string or \<^verbatim>\<open>undefined\<close>),
  \<^verbatim>\<open>write(p, v)\<close> returns and \<^verbatim>\<open>read(p)\<close> on the store it leaves returns \<open>v\<close>.
\<close>

theorem leaf_round_trip:
  assumes "plain s" and "segment p" and "\<not> inherited p"
    and "readable reg s p" and "writable reg s p"
    and "typeof v \<noteq> TObject" and "typeof v \<noteq> TFunction"
    and "p \<noteq> ''defaultPolicy'' \<or> (\<exists>q. reg (schema s) p = Some (Restrict (Some q)))"
  shows "call_write reg s p v w = (Returns (setAttribute s p v), w)
    \<and> call_read reg (setAttribute s p v) p w = (Returns v, w)"
proof -
  have w: "call_write reg s p v w = (Returns (setAttribute s p v), w)"
    using assms(1,2,5,6) by (simp add: write_single addToThisStore_plain)
  have pl: "plain (setAttribute s p v)"
    using assms(1,3) by (simp add: plain_setAttribute_iff)
  have "getPermission reg (setAttribute s p v) p = getPermission reg s p"
  proof (cases "p = ''defaultPolicy''")
    case True
    with assms(8) obtain q where "reg (schema s) p = Some (Restrict (Some q))"
      by auto
    with assms(3) show ?thesis
      by (simp add: getPermission_ordinary schema_setAttribute)
  next
    case False
    with assms(3) show ?thesis
      by (auto simp: getPermission_ordinary schema_setAttribute property_setAttribute
          split: option.splits decoration.splits)
  qed
  then have "readable reg (setAttribute s p v) p"
    using assms(4) by (simp add: readable_def)
  then have "call_read reg (setAttribute s p v) p w = (Returns v, w)"
    using pl assms(2,7)
    by (simp add: read_single readThisStore_plain [where x = v] own_setAttribute)
  with w show ?thesis by simp
qed

theorem leaf_round_trip_witness:
  "plain (new_Store :: unit Store) \<and> segment ''name'' \<and> \<not> inherited ''name''
   \<and> readable (\<lambda>c k. None) (new_Store :: unit Store) ''name''
   \<and> writable (\<lambda>c k. None) (new_Store :: unit Store) ''name''
   \<and> typeof (Str ''Ada'' :: unit StoreValue) \<noteq> TObject
   \<and> typeof (Str ''Ada'' :: unit StoreValue) \<noteq> TFunction
   \<and> call_write (\<lambda>c k. None) (new_Store :: unit Store) ''name'' (Str ''Ada'') ()
       = (Returns (Store ''Store'' [(''defaultPolicy'', Str ''rw''), (''name'', Str ''Ada'')]), ())
   \<and> call_read (\<lambda>c k. None)
        (Store ''Store'' [(''defaultPolicy'', Str ''rw''), (''name'', Str ''Ada'')] :: unit Store)
        ''name'' () = (Returns (Str ''Ada''), ())"
  using leaf_round_trip
    [of "new_Store :: unit Store" "''name''" "\<lambda>c k. None" "Str ''Ada''" "()"]
  by (simp add: segment_def plain_def readable_def writable_def getPermission_def
      permissions_entry_def property_def setAttribute_def new_Store_def inherited_def
      store_methods_def object_members_def)

section \<open>C6: a function is called on every read\<close>

text \<open>
  In a plain store a read of a readable field that holds a function calls it on the
  outside state of the moment and returns what it returns; nothing is kept between
  reads.
\<close>

lemma read_thunk_plain:
  assumes "plain s" and "segment k" and "readable reg s k"
    and "map_of (props s) k = Some (Fn f)"
  shows "call_read reg s k w = (Returns (fst (f w)), snd (f w))"
  using assms
  by (simp add: read_single readThisStore_def plain_allowedToRead plain_getAttribute
      property_own call_if_function_def split: prod.splits)

text \<open>
  C6 at the field name \<^verbatim>\<open>computePath\<close>. A fresh store permits the write of a counting
  function under that name and resolves the permission of the name to \<^verbatim>\<open>rw\<close>, so the
  claim makes successive reads of it return \<open>0\<close>, \<open>1\<close>, and so on. In the source
  \<^verbatim>\<open>read\<close> starts with \<^verbatim>\<open>this.computePath(path)\<close>, which now is the stored function:
  each read calls it once, as the path resolution, and throws a \<^verbatim>\<open>TypeError\<close> on
  destructuring the number it returns. No read returns a value.
\<close>

theorem thunk_named_computePath_breaks_read:
  "call_write (\<lambda>c k. None) (new_Store :: nat Store) ''computePath''
      (Fn (\<lambda>n. (Num (Finite (of_nat n)), Suc n))) 0
     = (Returns (Store ''Store'' [(''defaultPolicy'', Str ''rw''),
          (''computePath'', Fn (\<lambda>n. (Num (Finite (of_nat n)), Suc n)))]), 0)
   \<and> readable (\<lambda>c k. None)
        (Store ''Store'' [(''defaultPolicy'', Str ''rw''),
          (''computePath'', Fn (\<lambda>n. (Num (Finite (of_nat n)), Suc n)))] :: nat Store)
        ''computePath''
   \<and> call_read (\<lambda>c k. None)
        (Store ''Store'' [(''defaultPolicy'', Str ''rw''),
          (''computePath'', Fn (\<lambda>n. (Num (Finite (of_nat n)), Suc n)))])
        ''computePath'' 0
     = (Throws TypeError, Suc 0)
   \<and> call_read (\<lambda>c k. None)
        (Store ''Store'' [(''defaultPolicy'', Str ''rw''),
          (''computePath'', Fn (\<lambda>n. (Num (Finite (of_nat n)), Suc n)))])
        ''computePath'' (Suc 0)
     = (Throws TypeError, Suc (Suc 0))"
  by (simp add: run readable_def)

section \<open>C7: an empty segment inside a path\<close>

lemma read_empty_first: "plain c \<Longrightarrow> call_read reg c (CHR '':'' # rest) w = (Throws EmptyPath, w)"
  by (simp add: plain_call_read read.simps plain_computePath computePath_def)

lemma write_empty_first:
  "plain c \<Longrightarrow> call_write reg c (CHR '':'' # rest) v w = (Throws EmptyPath, w)"
  by (simp add: plain_call_write write_store.simps plain_computePath computePath_def)

lemma read_through_child:
  assumes "plain s" and "segment k" and "rest \<noteq> []" and "map_of (props s) k = Some (StoreV c)"
  shows "call_read reg s (k @ CHR '':'' # rest) w = call_read reg c rest w"
  using assms
  by (simp add: read_nested readNestedStore.simps property_own call_if_function_def
      call_read_def [symmetric])

lemma write_through_child_fails:
  assumes "plain s" and "segment k" and "rest \<noteq> []" and "map_of (props s) k = Some (StoreV c)"
    and "call_write reg c rest v w = (Throws e, w')"
  shows "call_write reg s (k @ CHR '':'' # rest) v w = (Throws e, w')"
  using assms
  by (simp add: write_nested addToNestedStore.simps plain_getAttribute property_own
      call_write_def [symmetric])

text \<open>
  C7, as stated, fails. The claim has the empty segment of \<^verbatim>\<open>"a::b"\<close> looked up as the
  key \<^verbatim>\<open>""\<close> at the next level. The resolution at the outer level does succeed and
  passes \<^verbatim>\<open>":b"\<close> on, but \<^verbatim>\<open>computePath\<close> at the next level rejects it: the child holds a
  field named \<^verbatim>\<open>""\<close> with a field \<^verbatim>\<open>b\<close> inside, and the read throws the empty-path
  error all the same.
\<close>

theorem empty_interior_segment_rejected:
  "computePath ''a::b'' = Inr (''a'', '':b'')
   \<and> computePath '':b'' = Inl EmptyPath
   \<and> map_of (props (Store ''Store'' [(''defaultPolicy'', Str ''rw''),
        ([], StoreV (Store ''Store'' [(''defaultPolicy'', Str ''rw''), (''b'', Num (Finite 1))]))]
        :: unit Store)) [] =
       Some (StoreV (Store ''Store'' [(''defaultPolicy'', Str ''rw''), (''b'', Num (Finite 1))]))
   \<and> call_read (\<lambda>c k. None)
        (Store ''Store'' [(''defaultPolicy'', Str ''rw''),
           (''a'', StoreV (Store ''Store'' [(''defaultPolicy'', Str ''rw''),
              ([], StoreV (Store ''Store'' [(''defaultPolicy'', Str ''rw''),
                                            (''b'', Num (Finite 1))]))]))])
        ''a::b'' () = (Throws EmptyPath, ())"
  by (simp add: run)

text \<open>
  C7, as the code has it. Let the path \<open>k:ks\<close> lead from the store through child
  stores, none of them with a field under the name of an inherited member, and let an
  empty segment follow it. The resolution at the outer level succeeds and passes on
  the remainder; a remainder that starts with the separator is rejected with the
  empty-path error; and a read and a write of the whole path throw that error and
  leave the outside state as it was, whatever the fields of the children are: the
  empty string is not looked up as a key.
\<close>

theorem empty_interior_segment:
  assumes "nodes_along s (k # ks)"
  shows "computePath (k @ CHR '':'' # CHR '':'' # rest) = Inr (k, CHR '':'' # rest)
    \<and> computePath (CHR '':'' # rest) = Inl EmptyPath
    \<and> call_read reg s (join_colon (k # ks) @ CHR '':'' # CHR '':'' # rest) w = (Throws EmptyPath, w)
    \<and> call_write reg s (join_colon (k # ks) @ CHR '':'' # CHR '':'' # rest) v w
        = (Throws EmptyPath, w)"
proof -
  have walk: "call_read reg s (join_colon (k # ks) @ CHR '':'' # CHR '':'' # rest) w
        = (Throws EmptyPath, w)
      \<and> call_write reg s (join_colon (k # ks) @ CHR '':'' # CHR '':'' # rest) v w
        = (Throws EmptyPath, w)"
    using assms
  proof (induction ks arbitrary: s k)
    case Nil
    then obtain c where c: "plain s" "segment k" "map_of (props s) k = Some (StoreV c)" "plain c"
      by (auto split: option.splits StoreValue.splits)
    then show ?case
      using read_through_child [of s k "CHR '':'' # rest" c reg w]
        write_through_child_fails [of s k "CHR '':'' # rest" c reg v w EmptyPath w]
      by (simp add: read_empty_first write_empty_first)
  next
    case (Cons k' ks)
    then obtain c where c: "plain s" "segment k" "map_of (props s) k = Some (StoreV c)"
        "nodes_along c (k' # ks)"
      by (auto split: option.splits StoreValue.splits)
    let ?rest = "join_colon (k' # ks) @ CHR '':'' # CHR '':'' # rest"
    have ne: "?rest \<noteq> []" by simp
    from Cons.IH [OF c(4)] have
      "call_read reg c ?rest w = (Throws EmptyPath, w)"
      "call_write reg c ?rest v w = (Throws EmptyPath, w)"
      by simp_all
    then show ?case
      using read_through_child [OF c(1,2) ne c(3), of reg w]
        write_through_child_fails [OF c(1,2) ne c(3), of reg v w EmptyPath w]
      by simp
  qed
  from assms have "segment k"
    by (auto split: option.splits)
  then have "computePath (k @ CHR '':'' # CHR '':'' # rest) = Inr (k, CHR '':'' # rest)"
    by (simp add: computePath_nested)
  moreover have "computePath (CHR '':'' # rest) = Inl EmptyPath"
    by (simp add: computePath_def)
  ultimately show ?thesis
    using walk by simp
qed

theorem empty_interior_segment_witness:
  "nodes_along (Store ''Store'' [(''defaultPolicy'', Str ''rw''),
      (''a'', StoreV (Store ''Store'' [(''defaultPolicy'', Str ''rw''),
         (''b'', StoreV new_Store)]))] :: unit Store) [''a'', ''b'']
   \<and> computePath ''a::c'' = Inr (''a'', '':c'')
   \<and> call_read (\<lambda>c k. None)
        (Store ''Store'' [(''defaultPolicy'', Str ''rw''),
          (''a'', StoreV (Store ''Store'' [(''defaultPolicy'', Str ''rw''),
             (''b'', StoreV new_Store)]))] :: unit Store)
        ''a:b::c'' () = (Throws EmptyPath, ())
   \<and> call_write (\<lambda>c k. None)
        (Store ''Store'' [(''defaultPolicy'', Str ''rw''),
          (''a'', StoreV (Store ''Store'' [(''defaultPolicy'', Str ''rw''),
             (''b'', StoreV new_Store)]))] :: unit Store)
        ''a:b::c'' (Num (Finite 1)) () = (Throws EmptyPath, ())"
  using empty_interior_segment
    [of "Store ''Store'' [(''defaultPolicy'', Str ''rw''),
          (''a'', StoreV (Store ''Store'' [(''defaultPolicy'', Str ''rw''),
             (''b'', StoreV new_Store)]))] :: unit Store"
        "''a''" "[''b'']" "''c''" "\<lambda>c k. None" "()" "Num (Finite 1)"]
  by (simp add: segment_def plain_def new_Store_def inherited_def store_methods_def
      object_members_def)

section \<open>C8: a nested write through a field that is not a node\<close>

text \<open>
  C8 at a field that holds \<^verbatim>\<open>0\<close>. The claim has a nested write never replace a field
  that is not a node. The source tests the field with \<^verbatim>\<open>!this.getAttribute(key)\<close>, so
  the leaf \<^verbatim>\<open>0\<close> counts as absent: \<^verbatim>\<open>write("k:x", 1)\<close> replaces it by a fresh node. The
  same write through the leaf \<^verbatim>\<open>5\<close> takes the other side of the test and throws a
  \<^verbatim>\<open>TypeError\<close>, replacing nothing. And where the field is absent a node is not always
  created: \<^verbatim>\<open>write("entries:x", 1)\<close> on a fresh store finds the inherited method
  \<^verbatim>\<open>entries\<close> and throws a \<^verbatim>\<open>TypeError\<close>.
\<close>

theorem nested_write_replaces_falsy_leaf:
  "call_write (\<lambda>c k. None) (new_Store :: unit Store) ''k'' (Num (Finite 0)) ()
     = (Returns (Store ''Store'' [(''defaultPolicy'', Str ''rw''), (''k'', Num (Finite 0))]), ())
   \<and> map_of (props (Store ''Store'' [(''defaultPolicy'', Str ''rw''), (''k'', Num (Finite 0))]
      :: unit Store)) ''k'' = Some (Num (Finite 0))
   \<and> call_write (\<lambda>c k. None)
        (Store ''Store'' [(''defaultPolicy'', Str ''rw''), (''k'', Num (Finite 0))] :: unit Store)
        ''k:x'' (Num (Finite 1)) ()
     = (Returns (Store ''Store'' [(''defaultPolicy'', Str ''rw''),
          (''k'', StoreV (Store ''Store'' [(''defaultPolicy'', Str ''rw''),
                                         (''x'', Num (Finite 1))]))]), ())
   \<and> call_write (\<lambda>c k. None)
        (Store ''Store'' [(''defaultPolicy'', Str ''rw''), (''k'', Num (Finite 5))] :: unit Store)
        ''k:x'' (Num (Finite 1)) ()
     = (Throws TypeError, ())
   \<and> map_of (props (new_Store :: unit Store)) ''entries'' = None
   \<and> call_write (\<lambda>c k. None) (new_Store :: unit Store) ''entries:x'' (Num (Finite 1)) ()
     = (Throws TypeError, ())"
  by (simp add: run)

section \<open>C9: the default policy is a field\<close>

text \<open>
  C9, as stated, fails. The claim has \<^verbatim>\<open>read("defaultPolicy")\<close> return the current
  policy. \<^verbatim>\<open>defaultPolicy\<close> has no entry, so its own permission is the policy it holds:
  after \<^verbatim>\<open>write("defaultPolicy", "w")\<close>, which returns, the read throws the permission
  error.
\<close>

theorem written_policy_hides_itself:
  "map_of (props (new_Store :: unit Store)) ''defaultPolicy'' = Some (Str ''rw'')
   \<and> call_write (\<lambda>c k. None) (new_Store :: unit Store) ''defaultPolicy'' (Str ''w'') ()
       = (Returns (Store ''Store'' [(''defaultPolicy'', Str ''w'')]), ())
   \<and> call_read (\<lambda>c k. None) (Store ''Store'' [(''defaultPolicy'', Str ''w'')] :: unit Store)
        ''defaultPolicy'' () = (Throws (ReadNotAllowed ''defaultPolicy''), ())"
  by (simp add: run)

text \<open>
  C9, as the code has it. Let the store have no field under the name of an inherited
  member, \<^verbatim>\<open>defaultPolicy = "rw"\<close>, and no registry entry for \<^verbatim>\<open>defaultPolicy\<close>. For every
  permission \<open>p\<close>, \<^verbatim>\<open>write("defaultPolicy", p)\<close> returns and leaves \<open>p\<close> as the store's
  \<^verbatim>\<open>defaultPolicy\<close>. On the store it leaves, for every field name without an entry that
  is not the name of an inherited member, \<^verbatim>\<open>allowedToRead\<close> holds exactly when \<open>p\<close> is
  \<^verbatim>\<open>r\<close> or \<^verbatim>\<open>rw\<close> and \<^verbatim>\<open>allowedToWrite\<close> exactly when \<open>p\<close> is \<^verbatim>\<open>w\<close> or \<^verbatim>\<open>rw\<close>; and
  \<^verbatim>\<open>read("defaultPolicy")\<close> returns \<open>p\<close> when \<open>p\<close> is \<^verbatim>\<open>r\<close> or \<^verbatim>\<open>rw\<close> and throws the
  permission error otherwise.
\<close>

theorem default_policy_is_a_field:
  assumes "plain s" and "map_of (props s) ''defaultPolicy'' = Some (Str ''rw'')"
    and "reg (schema s) ''defaultPolicy'' = None"
  shows "call_write reg s ''defaultPolicy'' (Str (permission_string p)) w
           = (Returns (setAttribute s ''defaultPolicy'' (Str (permission_string p))), w)
    \<and> map_of (props (setAttribute s ''defaultPolicy'' (Str (permission_string p))))
          ''defaultPolicy'' = Some (Str (permission_string p))
    \<and> (\<forall>f u. \<not> inherited f \<longrightarrow> reg (schema s) f = None \<longrightarrow>
          call_allowedToRead reg (setAttribute s ''defaultPolicy'' (Str (permission_string p))) f u
            = (Returns (Val (Bool (p = PermR \<or> p = PermRW))), u)
        \<and> call_allowedToWrite reg (setAttribute s ''defaultPolicy'' (Str (permission_string p))) f u
            = (Returns (Val (Bool (p = PermW \<or> p = PermRW))), u))
    \<and> (\<forall>u. call_read reg (setAttribute s ''defaultPolicy'' (Str (permission_string p)))
              ''defaultPolicy'' u
            = (if p = PermR \<or> p = PermRW then (Returns (Str (permission_string p)), u)
               else (Throws (ReadNotAllowed ''defaultPolicy''), u)))"
proof -
  let ?v = "Str (permission_string p) :: 'a StoreValue"
  let ?s = "setAttribute s ''defaultPolicy'' ?v"
  have name: "segment ''defaultPolicy''" "\<not> inherited ''defaultPolicy''"
    by (simp_all add: segment_def inherited_def store_methods_def object_members_def)
  have "writable reg s ''defaultPolicy''"
    using assms(2,3) name(2) by (simp add: writable_ordinary property_own)
  then have wr: "call_write reg s ''defaultPolicy'' ?v w = (Returns ?s, w)"
    using assms(1) name(1) by (simp add: write_single addToThisStore_plain)
  have own: "map_of (props ?s) ''defaultPolicy'' = Some ?v"
    by (simp add: own_setAttribute)
  have pl: "plain ?s"
    using assms(1) name(2) by (simp add: plain_setAttribute_iff)
  have perm: "getPermission reg ?s f = Val ?v" if "\<not> inherited f" "reg (schema s) f = None" for f
    using that by (simp add: getPermission_ordinary schema_setAttribute property_setAttribute)
  have caps: "readable reg ?s f = (p = PermR \<or> p = PermRW)"
      "writable reg ?s f = (p = PermW \<or> p = PermRW)"
    if "\<not> inherited f" "reg (schema s) f = None" for f
    using perm [OF that] by (simp_all add: readable_def writable_def permission_string_capability)
  have allowed: "call_allowedToRead reg ?s f u = (Returns (Val (Bool (p = PermR \<or> p = PermRW))), u)
      \<and> call_allowedToWrite reg ?s f u = (Returns (Val (Bool (p = PermW \<or> p = PermRW))), u)"
    if "\<not> inherited f" "reg (schema s) f = None" for f u
    using caps [OF that] pl by (simp add: plain_allowedToRead plain_allowedToWrite)
  have rd: "call_read reg ?s ''defaultPolicy'' u
      = (if p = PermR \<or> p = PermRW then (Returns (Str (permission_string p)), u)
         else (Throws (ReadNotAllowed ''defaultPolicy''), u))" for u
  proof (cases "readable reg ?s ''defaultPolicy''")
    case True
    then have "call_read reg ?s ''defaultPolicy'' u = (Returns ?v, u)"
      using pl name(1) own by (simp add: read_single readThisStore_plain [where x = ?v])
    with True show ?thesis
      using caps(1) [OF name(2) assms(3)] by simp
  next
    case False
    then have "call_read reg ?s ''defaultPolicy'' u = (Throws (ReadNotAllowed ''defaultPolicy''), u)"
      using pl name(1) by (simp add: read_single readThisStore_def plain_allowedToRead)
    with False show ?thesis
      using caps(1) [OF name(2) assms(3)] by simp
  qed
  show ?thesis
    using wr own allowed rd by blast
qed

theorem default_policy_is_a_field_witness:
  "plain (new_Store :: unit Store)
   \<and> map_of (props (new_Store :: unit Store)) ''defaultPolicy'' = Some (Str ''rw'')
   \<and> call_write (\<lambda>c k. None) (new_Store :: unit Store) ''defaultPolicy'' (Str ''r'') ()
       = (Returns (Store ''Store'' [(''defaultPolicy'', Str ''r'')]), ())
   \<and> call_allowedToRead (\<lambda>c k. None)
        (Store ''Store'' [(''defaultPolicy'', Str ''r'')] :: unit Store) ''x'' ()
       = (Returns (Val (Bool True)), ())
   \<and> call_allowedToWrite (\<lambda>c k. None)
        (Store ''Store'' [(''defaultPolicy'', Str ''r'')] :: unit Store) ''x'' ()
       = (Returns (Val (Bool False)), ())
   \<and> call_read (\<lambda>c k. None) (Store ''Store'' [(''defaultPolicy'', Str ''r'')] :: unit Store)
        ''defaultPolicy'' () = (Returns (Str ''r''), ())"
  using default_policy_is_a_field
    [where s = "new_Store :: unit Store" and reg = "\<lambda>c k. None" and p = PermR and w = "()"]
  by (simp add: run plain_def)

section \<open>C10: functions on the way of a nested read and of a nested write\<close>

text \<open>
  In a plain store a nested read through a field that holds a function calls the
  function and reads on in the store it returns, and a nested write through such a
  field throws a \<^verbatim>\<open>TypeError\<close> without calling the function: the outside state is as it
  was.
\<close>

lemma nested_read_thunk_plain:
  assumes "plain s" and "segment k" and "rest \<noteq> []"
    and "map_of (props s) k = Some (Fn f)" and "f w = (StoreV c, w')"
  shows "call_read reg s (k @ CHR '':'' # rest) w = call_read reg c rest w'"
  using assms
  by (simp add: read_nested readNestedStore.simps property_own call_if_function_def
      call_read_def [symmetric])

lemma nested_write_thunk_plain:
  assumes "plain s" and "segment k" and "rest \<noteq> []"
    and "map_of (props s) k = Some (Fn f)"
  shows "call_write reg s (k @ CHR '':'' # rest) v w = (Throws TypeError, w)"
  using assms
  by (simp add: write_nested addToNestedStore.simps plain_getAttribute property_own)

text \<open>
  C10 at the field name \<^verbatim>\<open>getAttribute\<close>. The claim has a nested write never call the
  function stored at \<open>k\<close>. The source reads the field by \<^verbatim>\<open>this.getAttribute(key)\<close>,
  which for \<open>k = getAttribute\<close> is the stored function itself: the write
  \<^verbatim>\<open>write("getAttribute:x", 1)\<close> calls it twice, once for the test and once for the
  child, as the counter in the outside state shows, and goes on with what it returns.
  With a function that returns \<^verbatim>\<open>5\<close> the write throws a \<^verbatim>\<open>TypeError\<close> after the two
  calls; with one that returns a store whose policy is \<^verbatim>\<open>none\<close> the error is the
  permission error of that store for \<^verbatim>\<open>x\<close>: the write went into the store the function
  returned.
\<close>

theorem write_calls_thunk_named_getAttribute:
  "call_write (\<lambda>c k. None) (new_Store :: nat Store) ''getAttribute''
      (Fn (\<lambda>n. (Num (Finite 5), Suc n))) 0
     = (Returns (Store ''Store'' [(''defaultPolicy'', Str ''rw''),
          (''getAttribute'', Fn (\<lambda>n. (Num (Finite 5), Suc n)))]), 0)
   \<and> call_write (\<lambda>c k. None)
      (Store ''Store'' [(''defaultPolicy'', Str ''rw''),
         (''getAttribute'', Fn (\<lambda>n. (Num (Finite 5), Suc n)))])
      ''getAttribute:x'' (Num (Finite 1)) 0
     = (Throws TypeError, Suc (Suc 0))
   \<and> call_write (\<lambda>c k. None)
      (Store ''Store'' [(''defaultPolicy'', Str ''rw''),
         (''getAttribute'',
            Fn (\<lambda>n. (StoreV (Store ''Store'' [(''defaultPolicy'', Str ''none'')]), Suc n)))])
      ''getAttribute:x'' (Num (Finite 1)) 0
     = (Throws (WriteNotAllowed ''x''), Suc (Suc 0))"
  by (simp add: run)

end
